theory Spec2Isabelle
  imports Main
begin

section \<open>Local ports: an address, a port, a protocol and an optional IP family\<close>

text \<open>
  The development follows \<^verbatim>\<open>net/port.go\<close>: the constructor \<^verbatim>\<open>NewLocalPort\<close>, the
  rendering \<^verbatim>\<open>(*LocalPort).String\<close> and the opener \<^verbatim>\<open>openLocalPort\<close>.

  Go strings are byte sequences, as \<^typ>\<open>string\<close> is; Go's \<^verbatim>\<open>int\<close> is modelled as
  \<^typ>\<open>int\<close> where it is only stored and printed (the port) and as \<^typ>\<open>nat\<close> for the
  parsers' counters, which stay below \<^verbatim>\<open>0xFFFFFF * 16 + 15\<close>, so that no machine
  integer wraps around.

  The file calls five functions of Go's standard library: \<^verbatim>\<open>net.ParseIP\<close>,
  \<^verbatim>\<open>IP.To4\<close>, \<^verbatim>\<open>net.JoinHostPort\<close>, \<^verbatim>\<open>strconv.Itoa\<close> and the verb \<^verbatim>\<open>%q\<close> of
  \<^verbatim>\<open>fmt\<close> (which is \<^verbatim>\<open>strconv.Quote\<close>). They are modelled below after the library of
  Go 1.15, the release of the year the file was written, function by function. The
  Unicode tables behind \<^verbatim>\<open>strconv.IsPrint\<close> and the operating system behind
  \<^verbatim>\<open>net.Listen\<close>, \<^verbatim>\<open>net.ResolveUDPAddr\<close> and \<^verbatim>\<open>net.ListenUDP\<close> are parameters.
  Later releases of the library differ on three kinds of input: they refuse a field
  of a dotted quad with a leading zero and a field of an IPv6 address with more than
  four digits, and they quote the byte \<^verbatim>\<open>0x7f\<close> as \<^verbatim>\<open>\x7f\<close>. No statement below is
  about such an input but through \<^verbatim>\<open>ParseIP\<close> and \<^verbatim>\<open>Quote\<close> as a whole.
\<close>

subsection \<open>Bytes\<close>

text \<open>
  A byte is a natural number below 256. \<open>ord c\<close> is the byte of a character of a string,
  and \<open>byte n\<close> is Go's conversion \<^verbatim>\<open>byte(n)\<close> of a non-negative integer, which keeps the
  low eight bits.
\<close>

type_synonym byte = nat

definition ord :: "char \<Rightarrow> nat" where
  "ord c = of_char c"

definition byte :: "nat \<Rightarrow> byte" where
  "byte n = n mod 256"

subsection \<open>\<^verbatim>\<open>net.ParseIP\<close> and \<^verbatim>\<open>IP.To4\<close>\<close>

text \<open>An \<^verbatim>\<open>IP\<close> is a byte slice; the \<^verbatim>\<open>nil\<close> slice is \<^const>\<open>None\<close>.\<close>

type_synonym IP = "byte list"

definition IPv4len :: nat where
  "IPv4len = 4"

definition IPv6len :: nat where
  "IPv6len = 16"

definition big :: nat where
  "big = 0xFFFFFF"

text \<open>
  \<^verbatim>\<open>dtoi\<close>: the decimal number at the start of the string, the number of bytes it
  takes, and whether there is one. The loop of the source runs over the index \<open>i\<close>;
  here it runs over the rest of the string, with \<open>n\<close> and \<open>i\<close> as accumulators.
\<close>

fun dtoi_loop :: "nat \<Rightarrow> nat \<Rightarrow> string \<Rightarrow> nat \<times> nat \<times> bool" where
  "dtoi_loop n i [] = (if i = 0 then (0, 0, False) else (n, i, True))"
| "dtoi_loop n i (c # cs) =
     (if ord CHR ''0'' \<le> ord c \<and> ord c \<le> ord CHR ''9'' then
        (if n * 10 + (ord c - ord CHR ''0'') \<ge> big then (big, i, False)
         else dtoi_loop (n * 10 + (ord c - ord CHR ''0'')) (i + 1) cs)
      else if i = 0 then (0, 0, False) else (n, i, True))"

definition dtoi :: "string \<Rightarrow> nat \<times> nat \<times> bool" where
  "dtoi s = dtoi_loop 0 0 s"

text \<open>\<^verbatim>\<open>xtoi\<close>: the same for a hexadecimal number, in either case of the letters.\<close>

fun xtoi_loop :: "nat \<Rightarrow> nat \<Rightarrow> string \<Rightarrow> nat \<times> nat \<times> bool" where
  "xtoi_loop n i [] = (if i = 0 then (0, i, False) else (n, i, True))"
| "xtoi_loop n i (c # cs) =
     (if ord CHR ''0'' \<le> ord c \<and> ord c \<le> ord CHR ''9'' then
        (if n * 16 + (ord c - ord CHR ''0'') \<ge> big then (0, i, False)
         else xtoi_loop (n * 16 + (ord c - ord CHR ''0'')) (i + 1) cs)
      else if ord CHR ''a'' \<le> ord c \<and> ord c \<le> ord CHR ''f'' then
        (if n * 16 + (ord c - ord CHR ''a'' + 10) \<ge> big then (0, i, False)
         else xtoi_loop (n * 16 + (ord c - ord CHR ''a'' + 10)) (i + 1) cs)
      else if ord CHR ''A'' \<le> ord c \<and> ord c \<le> ord CHR ''F'' then
        (if n * 16 + (ord c - ord CHR ''A'' + 10) \<ge> big then (0, i, False)
         else xtoi_loop (n * 16 + (ord c - ord CHR ''A'' + 10)) (i + 1) cs)
      else if i = 0 then (0, i, False) else (n, i, True))"

definition xtoi :: "string \<Rightarrow> nat \<times> nat \<times> bool" where
  "xtoi s = xtoi_loop 0 0 s"

text \<open>
  \<^verbatim>\<open>net.IPv4(a, b, c, d)\<close>: the 16-byte form of an IPv4 address, the four bytes after
  the prefix \<^verbatim>\<open>v4InV6Prefix\<close>.
\<close>

definition v4InV6Prefix :: "byte list" where
  "v4InV6Prefix = [0, 0, 0, 0, 0, 0, 0, 0, 0, 0, 0xff, 0xff]"

definition net_IPv4 :: "byte \<Rightarrow> byte \<Rightarrow> byte \<Rightarrow> byte \<Rightarrow> IP" where
  "net_IPv4 a0 a1 a2 a3 = v4InV6Prefix @ [a0, a1, a2, a3]"

text \<open>
  \<^verbatim>\<open>parseIPv4\<close>: four decimal fields of at most 255, separated by dots, and nothing
  after them. The loop over \<open>i < IPv4len\<close> collects the bytes in \<open>p\<close>.
\<close>

function parseIPv4_loop :: "nat \<Rightarrow> string \<Rightarrow> byte list \<Rightarrow> (string \<times> byte list) option" where
  "parseIPv4_loop i s p =
     (if i < IPv4len then
        (if s = [] then None
         else if i > 0 \<and> hd s \<noteq> CHR ''.'' then None
         else
           (case dtoi (if i > 0 then tl s else s) of
              (n, c, ok) \<Rightarrow>
                if \<not> ok \<or> n > 0xFF then None
                else parseIPv4_loop (i + 1) (drop c (if i > 0 then tl s else s)) (p @ [byte n])))
      else Some (s, p))"
  by pat_completeness auto
termination
  by (relation "measure (\<lambda>(i, s, p). IPv4len - i)") auto

declare parseIPv4_loop.simps [simp del]

definition parseIPv4 :: "string \<Rightarrow> IP option" where
  "parseIPv4 s =
     (case parseIPv4_loop 0 s [] of
        None \<Rightarrow> None
      | Some (s', p) \<Rightarrow>
          if s' \<noteq> [] then None else Some (net_IPv4 (p ! 0) (p ! 1) (p ! 2) (p ! 3)))"

text \<open>
  \<^verbatim>\<open>parseIPv6\<close>, the loop that reads hexadecimal fields followed by colons. The state
  is the address \<open>ip\<close> built so far, the rest \<open>s\<close> of the string, the index \<open>i\<close> of
  the next byte and the position \<open>ellipsis\<close> of \<^verbatim>\<open>::\<close> (\<open>-1\<close> when there was none).
  One run of the loop body ends in \<^verbatim>\<open>return nil\<close>, in a \<^verbatim>\<open>break\<close> or at the end of the
  body, from where the loop goes on with \<open>i + 2\<close>.
\<close>

datatype body_end =
    ReturnNil
  | Break IP string nat int
  | Next IP string int

definition parseIPv6_body :: "IP \<Rightarrow> string \<Rightarrow> nat \<Rightarrow> int \<Rightarrow> body_end" where
  "parseIPv6_body ip s i ellipsis =
     (case xtoi s of
        (n, c, ok) \<Rightarrow>
          if \<not> ok \<or> n > 0xFFFF then ReturnNil
          else if c < length s \<and> s ! c = CHR ''.'' then
            (if ellipsis < 0 \<and> i \<noteq> IPv6len - IPv4len then ReturnNil
             else if i + IPv4len > IPv6len then ReturnNil
             else
               (case parseIPv4 s of
                  None \<Rightarrow> ReturnNil
                | Some ip4 \<Rightarrow>
                    Break (ip[i := ip4 ! 12, i + 1 := ip4 ! 13, i + 2 := ip4 ! 14,
                              i + 3 := ip4 ! 15])
                      [] (i + IPv4len) ellipsis))
          else if drop c s = [] then
            Break (ip[i := byte (n div 256), i + 1 := byte n]) [] (i + 2) ellipsis
          else if hd (drop c s) \<noteq> CHR '':'' \<or> length (drop c s) = 1 then ReturnNil
          else if hd (tl (drop c s)) = CHR '':'' then
            (if ellipsis \<ge> 0 then ReturnNil
             else if tl (tl (drop c s)) = [] then
               Break (ip[i := byte (n div 256), i + 1 := byte n]) [] (i + 2) (int (i + 2))
             else
               Next (ip[i := byte (n div 256), i + 1 := byte n]) (tl (tl (drop c s)))
                 (int (i + 2)))
          else
            Next (ip[i := byte (n div 256), i + 1 := byte n]) (tl (drop c s)) ellipsis)"

function parseIPv6_loop ::
  "IP \<Rightarrow> string \<Rightarrow> nat \<Rightarrow> int \<Rightarrow> (IP \<times> string \<times> nat \<times> int) option" where
  "parseIPv6_loop ip s i ellipsis =
     (if i < IPv6len then
        (case parseIPv6_body ip s i ellipsis of
           ReturnNil \<Rightarrow> None
         | Break ip' s' i' ellipsis' \<Rightarrow> Some (ip', s', i', ellipsis')
         | Next ip' s' ellipsis' \<Rightarrow> parseIPv6_loop ip' s' (i + 2) ellipsis')
      else Some (ip, s, i, ellipsis))"
  by pat_completeness auto
termination
  by (relation "measure (\<lambda>(ip, s, i, ellipsis). IPv6len - i)") auto

declare parseIPv6_loop.simps [simp del]

text \<open>
  The expansion of the ellipsis: the two loops of the source, each over \<open>j\<close> counting
  down. The first moves the bytes \<open>ip[ellipsis..i)\<close> to the end, the second clears
  the \<open>n\<close> bytes from \<open>ellipsis\<close> on.
\<close>

definition expand_ellipsis :: "IP \<Rightarrow> nat \<Rightarrow> nat \<Rightarrow> IP" where
  "expand_ellipsis ip i ellipsis =
     (let n = IPv6len - i;
          ip1 = fold (\<lambda>j a. a[j + n := a ! j]) (rev [ellipsis..<i]) ip
      in fold (\<lambda>j a. a[j := 0]) (rev [ellipsis..<ellipsis + n]) ip1)"

definition parseIPv6 :: "string \<Rightarrow> IP option" where
  "parseIPv6 s =
     (if length s \<ge> 2 \<and> s ! 0 = CHR '':'' \<and> s ! 1 = CHR '':'' \<and> drop 2 s = [] then
        Some (replicate IPv6len 0)
      else
        (case (if length s \<ge> 2 \<and> s ! 0 = CHR '':'' \<and> s ! 1 = CHR '':''
               then parseIPv6_loop (replicate IPv6len 0) (drop 2 s) 0 0
               else parseIPv6_loop (replicate IPv6len 0) s 0 (-1)) of
           None \<Rightarrow> None
         | Some (ip, s', i, ellipsis) \<Rightarrow>
             if s' \<noteq> [] then None
             else if i < IPv6len then
               (if ellipsis < 0 then None else Some (expand_ellipsis ip i (nat ellipsis)))
             else if ellipsis \<ge> 0 then None
             else Some ip))"

text \<open>
  \<^verbatim>\<open>ParseIP\<close>: the first dot or colon of the string decides which parser reads it;
  a string with neither is no address.
\<close>

fun ParseIP_loop :: "string \<Rightarrow> string \<Rightarrow> IP option" where
  "ParseIP_loop s [] = None"
| "ParseIP_loop s (c # cs) =
     (if c = CHR ''.'' then parseIPv4 s
      else if c = CHR '':'' then parseIPv6 s
      else ParseIP_loop s cs)"

definition ParseIP :: "string \<Rightarrow> IP option" where
  "ParseIP s = ParseIP_loop s s"

text \<open>
  \<^verbatim>\<open>To4\<close>: the four bytes of an address that is an IPv4 address, in the 4-byte form
  or in the 16-byte form with the prefix; \<^verbatim>\<open>nil\<close> for every other address.
\<close>

definition isZeros :: "IP \<Rightarrow> bool" where
  "isZeros p = list_all (\<lambda>x. x = 0) p"

definition To4 :: "IP \<Rightarrow> IP option" where
  "To4 ip =
     (if length ip = IPv4len then Some ip
      else if length ip = IPv6len \<and> isZeros (take 10 ip) \<and> ip ! 10 = 0xff \<and> ip ! 11 = 0xff
      then Some (drop 12 ip)
      else None)"

subsection \<open>\<^verbatim>\<open>net.JoinHostPort\<close> and \<^verbatim>\<open>strconv.Itoa\<close>\<close>

text \<open>A host with a colon in it is taken for an IPv6 literal and put in brackets.\<close>

definition JoinHostPort :: "string \<Rightarrow> string \<Rightarrow> string" where
  "JoinHostPort host port =
     (if CHR '':'' \<in> set host then ''['' @ host @ '']:'' @ port
      else host @ '':'' @ port)"

text \<open>The decimal digits of a number, and \<^verbatim>\<open>Itoa\<close> with the sign of a negative one.\<close>

function utoa :: "nat \<Rightarrow> string" where
  "utoa n =
     (if n < 10 then [char_of (ord CHR ''0'' + n)]
      else utoa (n div 10) @ [char_of (ord CHR ''0'' + n mod 10)])"
  by pat_completeness auto
termination
  by (relation "measure (\<lambda>n. n)") auto

declare utoa.simps [simp del]

definition Itoa :: "int \<Rightarrow> string" where
  "Itoa i = (if i < 0 then CHR ''-'' # utoa (nat (- i)) else utoa (nat i))"

subsection \<open>\<^verbatim>\<open>strconv.Quote\<close>, the verb \<^verbatim>\<open>%q\<close>\<close>

text \<open>
  \<^verbatim>\<open>utf8.DecodeRuneInString\<close>: the rune at the start of a string and its width in
  bytes; \<^verbatim>\<open>(RuneError, 1)\<close> for a byte sequence that is not UTF-8. The table
  \<^verbatim>\<open>first\<close> gives for a first byte the size of the sequence and the range of its
  second byte (\<^verbatim>\<open>acceptRanges\<close>). A mask of the source is a remainder here, a shift a
  product, and the union of disjoint bits a sum.
\<close>

definition RuneError :: nat where
  "RuneError = 0xFFFD"

definition RuneSelf :: nat where
  "RuneSelf = 0x80"

definition MaxRune :: nat where
  "MaxRune = 0x10FFFF"

definition locb :: nat where
  "locb = 0x80"

definition hicb :: nat where
  "hicb = 0xBF"

datatype first_entry =
    AsciiByte
  | InvalidByte
  | Lead nat nat nat

definition first :: "byte \<Rightarrow> first_entry" where
  "first s0 =
     (if s0 < 0x80 then AsciiByte
      else if s0 < 0xC2 then InvalidByte
      else if s0 < 0xE0 then Lead 2 locb hicb
      else if s0 = 0xE0 then Lead 3 0xA0 hicb
      else if s0 < 0xED then Lead 3 locb hicb
      else if s0 = 0xED then Lead 3 locb 0x9F
      else if s0 < 0xF0 then Lead 3 locb hicb
      else if s0 = 0xF0 then Lead 4 0x90 hicb
      else if s0 < 0xF4 then Lead 4 locb hicb
      else if s0 = 0xF4 then Lead 4 locb 0x8F
      else InvalidByte)"

definition DecodeRuneInString :: "string \<Rightarrow> nat \<times> nat" where
  "DecodeRuneInString s =
     (if length s < 1 then (RuneError, 0)
      else
        (case first (ord (s ! 0)) of
           AsciiByte \<Rightarrow> (ord (s ! 0), 1)
         | InvalidByte \<Rightarrow> (RuneError, 1)
         | Lead sz lo hi \<Rightarrow>
             if length s < sz then (RuneError, 1)
             else if ord (s ! 1) < lo \<or> hi < ord (s ! 1) then (RuneError, 1)
             else if sz \<le> 2 then (ord (s ! 0) mod 32 * 64 + ord (s ! 1) mod 64, 2)
             else if ord (s ! 2) < locb \<or> hicb < ord (s ! 2) then (RuneError, 1)
             else if sz \<le> 3 then
               (ord (s ! 0) mod 16 * 4096 + ord (s ! 1) mod 64 * 64 + ord (s ! 2) mod 64, 3)
             else if ord (s ! 3) < locb \<or> hicb < ord (s ! 3) then (RuneError, 1)
             else
               (ord (s ! 0) mod 8 * 262144 + ord (s ! 1) mod 64 * 4096 + ord (s ! 2) mod 64 * 64
                  + ord (s ! 3) mod 64, 4)))"

text \<open>\<^verbatim>\<open>utf8.EncodeRune\<close>: the bytes of a rune.\<close>

definition EncodeRune :: "nat \<Rightarrow> string" where
  "EncodeRune r =
     (if r \<le> 0x7F then [char_of r]
      else if r \<le> 0x7FF then [char_of (0xC0 + r div 64), char_of (0x80 + r mod 64)]
      else if r > MaxRune \<or> (0xD800 \<le> r \<and> r \<le> 0xDFFF) then
        [char_of (0xE0 + RuneError div 4096), char_of (0x80 + RuneError div 64 mod 64),
         char_of (0x80 + RuneError mod 64)]
      else if r \<le> 0xFFFF then
        [char_of (0xE0 + r div 4096), char_of (0x80 + r div 64 mod 64),
         char_of (0x80 + r mod 64)]
      else
        [char_of (0xF0 + r div 262144), char_of (0x80 + r div 4096 mod 64),
         char_of (0x80 + r div 64 mod 64), char_of (0x80 + r mod 64)])"

text \<open>
  \<^verbatim>\<open>strconv.IsPrint\<close>: decided by ranges up to \<^verbatim>\<open>0xFF\<close> and by the tables
  \<^verbatim>\<open>isPrint16\<close>, \<^verbatim>\<open>isNotPrint16\<close>, \<^verbatim>\<open>isPrint32\<close> and \<^verbatim>\<open>isNotPrint32\<close> above. The
  tables are the parameter \<open>tab\<close>: \<open>tab r\<close> says whether they list \<open>r\<close> as printable.
\<close>

definition IsPrint :: "(nat \<Rightarrow> bool) \<Rightarrow> nat \<Rightarrow> bool" where
  "IsPrint tab r =
     (if r \<le> 0xFF then
        (if 0x20 \<le> r \<and> r \<le> 0x7E then True
         else if 0xA1 \<le> r \<and> r \<le> 0xFF then r \<noteq> 0xAD
         else False)
      else tab r)"

definition lowerhex :: string where
  "lowerhex = ''0123456789abcdef''"

text \<open>
  \<^verbatim>\<open>appendEscapedRune\<close> with the quote \<^verbatim>\<open>"\<close> and neither \<^verbatim>\<open>ASCIIonly\<close> nor
  \<^verbatim>\<open>graphicOnly\<close>, as \<^verbatim>\<open>Quote\<close> calls it: what one rune adds to the buffer.
\<close>

definition hex_digits :: "nat \<Rightarrow> nat \<Rightarrow> string" where
  "hex_digits k r = map (\<lambda>j. lowerhex ! (r div 16 ^ j mod 16)) (rev [0..<k])"

definition appendEscapedRune :: "(nat \<Rightarrow> bool) \<Rightarrow> nat \<Rightarrow> string" where
  "appendEscapedRune tab r =
     (if r = ord CHR 0x22 \<or> r = ord CHR 0x5C then [CHR 0x5C, char_of r]
      else if IsPrint tab r then EncodeRune r
      else if r = 7 then [CHR 0x5C, CHR ''a'']
      else if r = 8 then [CHR 0x5C, CHR ''b'']
      else if r = 12 then [CHR 0x5C, CHR ''f'']
      else if r = 10 then [CHR 0x5C, CHR ''n'']
      else if r = 13 then [CHR 0x5C, CHR ''r'']
      else if r = 9 then [CHR 0x5C, CHR ''t'']
      else if r = 11 then [CHR 0x5C, CHR ''v'']
      else if r < ord CHR '' '' then
        [CHR 0x5C, CHR ''x'', lowerhex ! (byte r div 16), lowerhex ! (byte r mod 16)]
      else if r > MaxRune then [CHR 0x5C, CHR ''u''] @ hex_digits 4 0xFFFD
      else if r < 0x10000 then [CHR 0x5C, CHR ''u''] @ hex_digits 4 r
      else [CHR 0x5C, CHR ''U''] @ hex_digits 8 r)"

text \<open>
  One run of the loop of \<^verbatim>\<open>appendQuotedWith\<close>: the text added for the rune at the
  start of a non-empty string, and the width of that rune.
\<close>

definition quote_step :: "(nat \<Rightarrow> bool) \<Rightarrow> string \<Rightarrow> string \<times> nat" where
  "quote_step tab s =
     (let rw = (if ord (s ! 0) \<ge> RuneSelf then DecodeRuneInString s else (ord (s ! 0), 1))
      in if snd rw = 1 \<and> fst rw = RuneError then
           ([CHR 0x5C, CHR ''x'', lowerhex ! (ord (s ! 0) div 16), lowerhex ! (ord (s ! 0) mod 16)], 1)
         else (appendEscapedRune tab (fst rw), snd rw))"

lemma DecodeRuneInString_width: "s \<noteq> [] \<Longrightarrow> 0 < snd (DecodeRuneInString s)"
  by (cases s) (simp_all add: DecodeRuneInString_def split: first_entry.split)

lemma quote_step_width: "s \<noteq> [] \<Longrightarrow> 0 < snd (quote_step tab s)"
  by (simp add: quote_step_def Let_def DecodeRuneInString_width)

text \<open>
  The loop of \<^verbatim>\<open>appendQuotedWith\<close> goes on behind the rune it has read, until the
  string is empty; \<^verbatim>\<open>Quote\<close> puts the result between two quotes.
\<close>

function appendQuoted_loop :: "(nat \<Rightarrow> bool) \<Rightarrow> string \<Rightarrow> string" where
  "appendQuoted_loop tab s =
     (if s = [] then []
      else fst (quote_step tab s) @ appendQuoted_loop tab (drop (snd (quote_step tab s)) s))"
  by pat_completeness auto
termination
  by (relation "measure (\<lambda>(tab, s). length s)") (auto simp: quote_step_width)

declare appendQuoted_loop.simps [simp del]

definition Quote :: "(nat \<Rightarrow> bool) \<Rightarrow> string \<Rightarrow> string" where
  "Quote tab s = [CHR 0x22] @ appendQuoted_loop tab s @ [CHR 0x22]"

subsection \<open>The descriptor and its constructor\<close>

type_synonym IPFamily = string

definition IPv4 :: IPFamily where
  "IPv4 = ''4''"

definition IPv6 :: IPFamily where
  "IPv6 = ''6''"

record LocalPort =
  Description :: string
  IP :: string
  IPFamily :: IPFamily
  Port :: int
  Protocol :: string

text \<open>
  An error is its message: \<open>Errorf\<close> is an error of \<^verbatim>\<open>fmt.Errorf\<close> with the
  formatted text, \<open>NetError\<close> an error that the \<^verbatim>\<open>net\<close> package returned from the
  operating system. The five errors of the file, by the format each is made with:
\<close>

datatype error =
    Errorf string
  | NetError string

definition UnsupportedProtocol :: "string \<Rightarrow> error" where
  "UnsupportedProtocol protocol = Errorf (''Unsupported protocol '' @ protocol)"

definition InvalidIPFamily :: "IPFamily \<Rightarrow> error" where
  "InvalidIPFamily ipFamily = Errorf (''Invalid IP family '' @ ipFamily)"

definition InvalidIPAddress :: "string \<Rightarrow> error" where
  "InvalidIPAddress ip = Errorf (''invalid ip address '' @ ip)"

definition FamilyMismatch :: "string \<Rightarrow> IPFamily \<Rightarrow> error" where
  "FamilyMismatch ip ipFamily =
     Errorf (''ip address and family mismatch '' @ ip @ '', '' @ ipFamily)"

definition UnknownProtocol :: "(nat \<Rightarrow> bool) \<Rightarrow> string \<Rightarrow> error" where
  "UnknownProtocol tab protocol = Errorf (''unknown protocol '' @ Quote tab protocol)"

text \<open>
  \<^verbatim>\<open>NewLocalPort\<close>: the checks in the order of the source. The result is the error
  (\<^const>\<open>Inl\<close>) or the descriptor (\<^const>\<open>Inr\<close>); the source returns \<^verbatim>\<open>nil\<close> for the one
  that is not there.
\<close>

definition NewLocalPort ::
  "string \<Rightarrow> string \<Rightarrow> IPFamily \<Rightarrow> int \<Rightarrow> string \<Rightarrow> error + LocalPort" where
  "NewLocalPort desc ip ipFamily port protocol =
     (if protocol \<noteq> ''tcp'' \<and> protocol \<noteq> ''sctp'' \<and> protocol \<noteq> ''udp'' then
        Inl (UnsupportedProtocol protocol)
      else if ipFamily \<noteq> [] \<and> ipFamily \<noteq> ''4'' \<and> ipFamily \<noteq> ''6'' then
        Inl (InvalidIPFamily ipFamily)
      else if ip \<noteq> [] then
        (case ParseIP ip of
           None \<Rightarrow> Inl (InvalidIPAddress ip)
         | Some parsedIP \<Rightarrow>
             if To4 parsedIP = None \<and> ipFamily = IPv4 \<or> To4 parsedIP \<noteq> None \<and> ipFamily = IPv6
             then Inl (FamilyMismatch ip ipFamily)
             else Inr \<lparr>Description = desc, IP = ip, IPFamily = ipFamily, Port = port,
                        Protocol = protocol\<rparr>)
      else Inr \<lparr>Description = desc, IP = ip, IPFamily = ipFamily, Port = port,
                 Protocol = protocol\<rparr>)"

subsection \<open>Rendering\<close>

definition String :: "(nat \<Rightarrow> bool) \<Rightarrow> LocalPort \<Rightarrow> string" where
  "String tab lp =
     (let ipPort = JoinHostPort (IP lp) (Itoa (Port lp))
      in Quote tab (Description lp) @ '' ('' @ ipPort @ ''/'' @ Protocol lp @ IPFamily lp @ '')'')"

subsection \<open>Opening a port\<close>

text \<open>
  The operating system is a state \<open>'w\<close> and the three calls of the \<^verbatim>\<open>net\<close> package
  that act on it: each takes the state and returns an error or a resource, and the
  new state. A \<^verbatim>\<open>Closeable\<close> is the listener of \<^verbatim>\<open>net.Listen\<close> or the connection of
  \<^verbatim>\<open>net.ListenUDP\<close>; the \<^verbatim>\<open>nil\<close> interface is \<^const>\<open>None\<close>.
\<close>

record ('w, 'l, 'a, 'c) net =
  Listen :: "string \<Rightarrow> string \<Rightarrow> 'w \<Rightarrow> (error + 'l) \<times> 'w"
  ResolveUDPAddr :: "string \<Rightarrow> string \<Rightarrow> 'w \<Rightarrow> (error + 'a) \<times> 'w"
  ListenUDP :: "string \<Rightarrow> 'a \<Rightarrow> 'w \<Rightarrow> (error + 'c) \<times> 'w"

datatype ('l, 'c) Closeable =
    Listener 'l
  | UDPConn 'c

definition openLocalPort ::
  "(nat \<Rightarrow> bool) \<Rightarrow> ('w, 'l, 'a, 'c) net \<Rightarrow> LocalPort \<Rightarrow> 'w \<Rightarrow>
     (error + ('l, 'c) Closeable option) \<times> 'w" where
  "openLocalPort tab os lp w =
     (let network = Protocol lp @ IPFamily lp;
          hostPort = JoinHostPort (IP lp) (Itoa (Port lp))
      in if Protocol lp = ''tcp'' then
           (case Listen os network hostPort w of
              (Inl err, w1) \<Rightarrow> (Inl err, w1)
            | (Inr listener, w1) \<Rightarrow> (Inr (Some (Listener listener)), w1))
         else if Protocol lp = ''udp'' then
           (case ResolveUDPAddr os network hostPort w of
              (Inl err, w1) \<Rightarrow> (Inl err, w1)
            | (Inr addr, w1) \<Rightarrow>
                (case ListenUDP os network addr w1 of
                   (Inl err, w2) \<Rightarrow> (Inl err, w2)
                 | (Inr conn, w2) \<Rightarrow> (Inr (Some (UDPConn conn)), w2)))
         else if Protocol lp = ''sctp'' then (Inr None, w)
         else (Inl (UnknownProtocol tab (Protocol lp)), w))"

text \<open>
  \<^verbatim>\<open>listenPortOpener.OpenLocalPort\<close>, the implementation of the interface
  \<^verbatim>\<open>PortOpener\<close>, calls \<^verbatim>\<open>openLocalPort\<close> and nothing else.
\<close>

definition OpenLocalPort ::
  "(nat \<Rightarrow> bool) \<Rightarrow> ('w, 'l, 'a, 'c) net \<Rightarrow> LocalPort \<Rightarrow> 'w \<Rightarrow>
     (error + ('l, 'c) Closeable option) \<times> 'w" where
  "OpenLocalPort tab os lp w = openLocalPort tab os lp w"

subsection \<open>Notions of the specification\<close>

text \<open>
  An IPv4-mapped IPv6 literal: a string in the colon form that parses to an address
  with the prefix \<^verbatim>\<open>::ffff:0:0/96\<close>, such as \<^verbatim>\<open>::ffff:1.2.3.4\<close> or
  \<^verbatim>\<open>0:0:0:0:0:ffff:102:304\<close>.
\<close>

definition IPv4_mapped_literal :: "string \<Rightarrow> bool" where
  "IPv4_mapped_literal s =
     (CHR '':'' \<in> set s
      \<and> (case ParseIP s of None \<Rightarrow> False | Some ip \<Rightarrow> take 12 ip = v4InV6Prefix))"

text \<open>
  The literals in canonical form: \<open>dotted a0 a1 a2 a3\<close> is the dotted quad of four
  numbers, each printed as \<^const>\<open>utoa\<close> prints it, and \<open>mapped_dotted\<close> is the dotted
  quad behind \<^verbatim>\<open>::ffff:\<close>. \<open>dval\<close> is the number that a string of decimal digits
  stands for, after the digits read before.
\<close>

definition is_digit :: "char \<Rightarrow> bool" where
  "is_digit c = (ord CHR ''0'' \<le> ord c \<and> ord c \<le> ord CHR ''9'')"

fun dval :: "nat \<Rightarrow> string \<Rightarrow> nat" where
  "dval m [] = m"
| "dval m (c # cs) = dval (m * 10 + (ord c - ord CHR ''0'')) cs"

definition dotted :: "nat \<Rightarrow> nat \<Rightarrow> nat \<Rightarrow> nat \<Rightarrow> string" where
  "dotted a0 a1 a2 a3 = utoa a0 @ ''.'' @ utoa a1 @ ''.'' @ utoa a2 @ ''.'' @ utoa a3"

definition mapped_dotted :: "nat \<Rightarrow> nat \<Rightarrow> nat \<Rightarrow> nat \<Rightarrow> string" where
  "mapped_dotted a0 a1 a2 a3 = ''::ffff:'' @ dotted a0 a1 a2 a3"

text \<open>
  A plain string: printable ASCII with neither a double quote nor a backslash.
  \<^const>\<open>Quote\<close> leaves such a string as it is and puts it between double quotes.
\<close>

definition plain :: "string \<Rightarrow> bool" where
  "plain s = list_all (\<lambda>c. 0x20 \<le> ord c \<and> ord c \<le> 0x7E \<and> ord c \<noteq> 0x22 \<and> ord c \<noteq> 0x5C) s"

text \<open>An operating system on which every call fails and is counted.\<close>

definition failing_net :: "(nat, unit, unit, unit) net" where
  "failing_net =
     \<lparr>Listen = (\<lambda>network address w. (Inl (NetError ''listen: address already in use''), Suc w)),
      ResolveUDPAddr = (\<lambda>network address w. (Inl (NetError ''no such host''), Suc w)),
      ListenUDP = (\<lambda>network addr w. (Inl (NetError ''listen: address already in use''), Suc w))\<rparr>"

section \<open>Properties of the parsers\<close>

text \<open>
  Two facts for the evaluation of the parsers on a given string: the zero address
  written out, and the update of a list at a numeral.
\<close>

lemma replicate_16: "replicate 16 (0::nat) = [0,0,0,0,0,0,0,0,0,0,0,0,0,0,0,0]"
  by (simp add: numeral_eq_Suc)

lemma list_update_Cons_numeral: "(x # xs)[numeral v := y] = x # xs[numeral v - 1 := y]"
  by (simp add: numeral_eq_Suc)

text \<open>The equations that evaluate \<^const>\<open>ParseIP\<close> on a given string.\<close>

lemmas ParseIP_eval =
  ParseIP_def parseIPv6_def parseIPv6_body_def xtoi_def parseIPv4_def dtoi_def ord_def big_def
  IPv4len_def IPv6len_def net_IPv4_def v4InV6Prefix_def expand_ellipsis_def byte_def upt_rec
  replicate_16 list_update_Cons_numeral parseIPv4_loop.simps parseIPv6_loop.simps

text \<open>What \<^const>\<open>parseIPv4\<close> accepts is an IPv4 address for \<^const>\<open>To4\<close>.\<close>

lemma To4_net_IPv4: "To4 (net_IPv4 a0 a1 a2 a3) = Some [a0, a1, a2, a3]"
  by (simp add: To4_def net_IPv4_def v4InV6Prefix_def IPv4len_def IPv6len_def isZeros_def)

lemma parseIPv4_Some: "parseIPv4 s = Some ip \<Longrightarrow> \<exists>a0 a1 a2 a3. ip = net_IPv4 a0 a1 a2 a3"
  by (auto simp: parseIPv4_def split: option.splits prod.splits if_splits)

lemma length_net_IPv4: "length (net_IPv4 a0 a1 a2 a3) = 16"
  by (simp add: net_IPv4_def v4InV6Prefix_def)

text \<open>Every address of \<^const>\<open>ParseIP\<close> has sixteen bytes.\<close>

lemma parseIPv6_body_Break_length:
  "parseIPv6_body ip s i ellipsis = Break ip' s' i' ellipsis' \<Longrightarrow> length ip' = length ip"
  by (auto simp: parseIPv6_body_def split: prod.splits if_splits option.splits)

lemma parseIPv6_body_Next_length:
  "parseIPv6_body ip s i ellipsis = Next ip' s' ellipsis' \<Longrightarrow> length ip' = length ip"
  by (auto simp: parseIPv6_body_def split: prod.splits if_splits option.splits)

lemma parseIPv6_loop_length:
  "parseIPv6_loop ip s i ellipsis = Some (ip', s', i', ellipsis') \<Longrightarrow> length ip' = length ip"
proof (induction ip s i ellipsis rule: parseIPv6_loop.induct)
  case (1 ip s i ellipsis)
  show ?case
  proof (cases "i < IPv6len")
    case False
    with "1.prems" show ?thesis by (simp add: parseIPv6_loop.simps)
  next
    case True
    show ?thesis
    proof (cases "parseIPv6_body ip s i ellipsis")
      case ReturnNil
      with True "1.prems" show ?thesis by (simp add: parseIPv6_loop.simps)
    next
      case (Break ip1 s1 i1 e1)
      with True "1.prems" show ?thesis
        by (simp add: parseIPv6_loop.simps parseIPv6_body_Break_length)
    next
      case (Next ip1 s1 e1)
      with True "1.prems" have "parseIPv6_loop ip1 s1 (i + 2) e1 = Some (ip', s', i', ellipsis')"
        by (simp add: parseIPv6_loop.simps)
      with "1.IH" [OF True Next] have "length ip' = length ip1" by simp
      with Next show ?thesis by (simp add: parseIPv6_body_Next_length)
    qed
  qed
qed

lemma length_fold_list_update:
  "length (fold (\<lambda>j a. a[f j := g j a]) js ip) = length ip"
  by (induction js arbitrary: ip) simp_all

lemma length_expand_ellipsis: "length (expand_ellipsis ip i ellipsis) = length ip"
  by (simp add: expand_ellipsis_def Let_def length_fold_list_update)

lemma parseIPv6_length:
  assumes "parseIPv6 s = Some ip"
  shows "length ip = 16"
proof (cases "length s \<ge> 2 \<and> s ! 0 = CHR '':'' \<and> s ! 1 = CHR '':'' \<and> drop 2 s = []")
  case True
  with assms show ?thesis by (auto simp: parseIPv6_def IPv6len_def)
next
  case False
  define r where "r = (if length s \<ge> 2 \<and> s ! 0 = CHR '':'' \<and> s ! 1 = CHR '':''
               then parseIPv6_loop (replicate IPv6len 0) (drop 2 s) 0 0
               else parseIPv6_loop (replicate IPv6len 0) s 0 (-1))"
  from assms False obtain ip1 s1 i1 e1 where r: "r = Some (ip1, s1, i1, e1)"
    and ip: "ip = ip1 \<or> ip = expand_ellipsis ip1 i1 (nat e1)"
    unfolding parseIPv6_def r_def [symmetric]
    by (cases r) (auto split: if_splits)
  from r have "length ip1 = 16"
    by (auto simp: r_def IPv6len_def split: if_splits dest: parseIPv6_loop_length)
  with ip show ?thesis by (auto simp: length_expand_ellipsis)
qed

lemma ParseIP_loop_cases:
  "ParseIP_loop s t = Some ip \<Longrightarrow>
     parseIPv4 s = Some ip \<or> (parseIPv6 s = Some ip \<and> CHR '':'' \<in> set t)"
  by (induction t) (auto split: if_splits)

lemma ParseIP_length: "ParseIP s = Some ip \<Longrightarrow> length ip = 16"
  by (auto simp: ParseIP_def length_net_IPv4 dest!: ParseIP_loop_cases parseIPv4_Some
      dest: parseIPv6_length)

text \<open>
  An address that \<^const>\<open>To4\<close> does not take for IPv4 was written with a colon: the
  string went to \<^const>\<open>parseIPv6\<close>.
\<close>

lemma ParseIP_To4_None: "ParseIP s = Some ip \<Longrightarrow> To4 ip = None \<Longrightarrow> CHR '':'' \<in> set s"
  by (auto simp: ParseIP_def To4_net_IPv4 dest!: ParseIP_loop_cases parseIPv4_Some)

section \<open>Literals that the parsers accept\<close>

text \<open>
  \<^const>\<open>utoa\<close> prints digits, and \<^const>\<open>dtoi\<close> reads the number back that
  \<^const>\<open>utoa\<close> printed, up to the first byte that is not a digit.
\<close>

lemma ord_digit: "k < 10 \<Longrightarrow> ord (char_of (ord CHR ''0'' + k)) = 48 + k"
  by (simp add: ord_def)

lemma utoa_digits: "list_all is_digit (utoa n) \<and> utoa n \<noteq> []"
proof (induction n rule: utoa.induct)
  case (1 n)
  show ?case
  proof (cases "n < 10")
    case True
    then show ?thesis
      by (subst (1 2) utoa.simps) (simp add: is_digit_def ord_digit, simp add: ord_def)
  next
    case False
    have "n mod 10 < 10" by simp
    then have "is_digit (char_of (ord CHR ''0'' + n mod 10))"
      unfolding is_digit_def by (simp only: ord_digit) (simp add: ord_def)
    with False "1.IH" show ?thesis
      by (subst (1 2) utoa.simps) simp
  qed
qed

lemma dval_append: "dval m (xs @ ys) = dval (dval m xs) ys"
  by (induction xs arbitrary: m) simp_all

lemma dval_utoa: "dval 0 (utoa n) = n"
proof (induction n rule: utoa.induct)
  case (1 n)
  show ?case
  proof (cases "n < 10")
    case True
    then show ?thesis
      by (subst utoa.simps) (simp add: ord_digit, simp add: ord_def)
  next
    case False
    have "n mod 10 < 10" by simp
    then have "ord (char_of (ord CHR ''0'' + n mod 10)) - ord CHR ''0'' = n mod 10"
      by (simp only: ord_digit) (simp add: ord_def)
    with False "1.IH" show ?thesis
      by (subst utoa.simps) (simp add: dval_append)
  qed
qed

lemma dval_ge: "m \<le> dval m ds"
proof (induction ds arbitrary: m)
  case Nil
  show ?case by simp
next
  case (Cons c cs)
  have "m \<le> m * 10 + (ord c - ord CHR ''0'')" by simp
  also have "\<dots> \<le> dval (m * 10 + (ord c - ord CHR ''0'')) cs" by (rule Cons.IH)
  finally show ?case by simp
qed

lemma dtoi_loop_digits:
  assumes "list_all is_digit ds" and "dval m ds < big" and "r = [] \<or> \<not> is_digit (hd r)"
    and "0 < i + length ds"
  shows "dtoi_loop m i (ds @ r) = (dval m ds, i + length ds, True)"
  using assms
proof (induction ds arbitrary: m i)
  case Nil
  then show ?case by (cases r) (auto simp: is_digit_def)
next
  case (Cons c cs)
  from Cons.prems(2) dval_ge [of "m * 10 + (ord c - ord CHR ''0'')" cs]
  have "m * 10 + (ord c - ord CHR ''0'') < big" by simp
  moreover from Cons.prems have "dtoi_loop (m * 10 + (ord c - ord CHR ''0'')) (i + 1) (cs @ r)
      = (dval (m * 10 + (ord c - ord CHR ''0'')) cs, i + 1 + length cs, True)"
    by (intro Cons.IH) simp_all
  ultimately show ?case using Cons.prems(1) by (simp add: is_digit_def)
qed

lemma dtoi_utoa:
  assumes "n < big" and "r = [] \<or> \<not> is_digit (hd r)"
  shows "dtoi (utoa n @ r) = (n, length (utoa n), True)"
  using dtoi_loop_digits [of "utoa n" 0 r 0] assms utoa_digits [of n]
  by (simp add: dtoi_def dval_utoa)


text \<open>
  Every dotted quad of numbers up to 255 parses, as the IPv4 address of the four
  numbers.
\<close>

lemma dtoi_utoa_dot: "n \<le> 255 \<Longrightarrow> dtoi (utoa n @ CHR ''.'' # r) = (n, length (utoa n), True)"
  by (rule dtoi_utoa) (simp_all add: big_def is_digit_def ord_def)

lemma dtoi_utoa_end: "n \<le> 255 \<Longrightarrow> dtoi (utoa n) = (n, length (utoa n), True)"
  using dtoi_utoa [of n "[]"] by (simp add: big_def)

lemma parseIPv4_loop_first:
  assumes "n \<le> 255"
  shows "parseIPv4_loop 0 (utoa n @ CHR ''.'' # r) p
    = parseIPv4_loop (Suc 0) (CHR ''.'' # r) (p @ [n])"
  using assms utoa_digits [of n]
  by (subst parseIPv4_loop.simps) (simp add: IPv4len_def dtoi_utoa_dot byte_def)

lemma parseIPv4_loop_next:
  assumes "n \<le> 255" and "Suc i < 4"
  shows "parseIPv4_loop (Suc i) (CHR ''.'' # utoa n @ CHR ''.'' # r) p
    = parseIPv4_loop (Suc (Suc i)) (CHR ''.'' # r) (p @ [n])"
  using assms
  by (subst parseIPv4_loop.simps) (simp add: IPv4len_def dtoi_utoa_dot byte_def)

lemma parseIPv4_loop_last:
  assumes "n \<le> 255" and "Suc i < 4"
  shows "parseIPv4_loop (Suc i) (CHR ''.'' # utoa n) p = parseIPv4_loop (Suc (Suc i)) [] (p @ [n])"
  using assms
  by (subst parseIPv4_loop.simps) (simp add: IPv4len_def dtoi_utoa_end byte_def)

lemma parseIPv4_loop_done: "parseIPv4_loop (Suc (Suc (Suc (Suc 0)))) s p = Some (s, p)"
  by (subst parseIPv4_loop.simps) (simp add: IPv4len_def)

lemma parseIPv4_dotted:
  assumes "a0 \<le> 255" and "a1 \<le> 255" and "a2 \<le> 255" and "a3 \<le> 255"
  shows "parseIPv4 (dotted a0 a1 a2 a3) = Some (net_IPv4 a0 a1 a2 a3)"
proof -
  have "parseIPv4_loop 0 (dotted a0 a1 a2 a3) [] = Some ([], [a0, a1, a2, a3])"
    using assms
    by (simp add: dotted_def parseIPv4_loop_first parseIPv4_loop_next parseIPv4_loop_last
        parseIPv4_loop_done)
  then show ?thesis by (simp add: parseIPv4_def)
qed

lemma first_dot_ParseIP_loop:
  assumes "list_all is_digit ds"
  shows "ParseIP_loop s (ds @ CHR ''.'' # r) = parseIPv4 s"
  using assms by (induction ds) (auto simp: is_digit_def ord_def)

lemma ParseIP_dotted:
  assumes "a0 \<le> 255" and "a1 \<le> 255" and "a2 \<le> 255" and "a3 \<le> 255"
  shows "ParseIP (dotted a0 a1 a2 a3) = Some (net_IPv4 a0 a1 a2 a3)"
proof -
  have "ParseIP (dotted a0 a1 a2 a3) = parseIPv4 (dotted a0 a1 a2 a3)"
    unfolding ParseIP_def
    using first_dot_ParseIP_loop [of "utoa a0" "dotted a0 a1 a2 a3"] utoa_digits [of a0]
    by (simp add: dotted_def)
  with assms show ?thesis by (simp add: parseIPv4_dotted)
qed


text \<open>
  \<^const>\<open>xtoi\<close> reads decimal digits as hexadecimal ones; the field of an embedded
  dotted quad is short enough for the number to stay below \<^verbatim>\<open>0xFFFF\<close>.
\<close>

lemma xtoi_loop_digits:
  assumes "list_all is_digit ds" and "(m + 1) * 16 ^ length ds \<le> big" and "0 < i + length ds"
  shows "\<exists>n. xtoi_loop m i (ds @ CHR ''.'' # r) = (n, i + length ds, True)
    \<and> n < (m + 1) * 16 ^ length ds"
  using assms
proof (induction ds arbitrary: m i)
  case Nil
  then show ?case by (simp add: ord_def)
next
  case (Cons c cs)
  let ?m = "m * 16 + (ord c - ord CHR ''0'')"
  from Cons.prems(1) have d: "ord CHR ''0'' \<le> ord c" "ord c \<le> ord CHR ''9''"
    by (simp_all add: is_digit_def)
  then have "ord c - ord CHR ''0'' < 16" by (simp add: ord_def)
  then have le: "?m + 1 \<le> (m + 1) * 16" by simp
  have step: "(?m + 1) * 16 ^ length cs \<le> (m + 1) * 16 ^ length (c # cs)"
  proof -
    have "(?m + 1) * 16 ^ length cs \<le> ((m + 1) * 16) * 16 ^ length cs"
      using le by (rule mult_le_mono1)
    also have "\<dots> = (m + 1) * 16 ^ length (c # cs)"
      by (simp add: algebra_simps)
    finally show ?thesis .
  qed
  from step Cons.prems(2) have bound: "(?m + 1) * 16 ^ length cs \<le> big"
    by (rule order_trans)
  have "(?m + 1) * 1 \<le> (?m + 1) * 16 ^ length cs"
    by (intro mult_le_mono2) simp
  then have "?m + 1 \<le> (?m + 1) * 16 ^ length cs"
    by (simp only: mult_1_right)
  from this bound have "?m + 1 \<le> big"
    by (rule order_trans)
  then have small: "?m < big" by simp
  from Cons.prems(1) have "list_all is_digit cs" by simp
  from Cons.IH [OF this bound, of "i + 1"] obtain n where
    n: "xtoi_loop ?m (i + 1) (cs @ CHR ''.'' # r) = (n, i + 1 + length cs, True)"
    and "n < (?m + 1) * 16 ^ length cs"
    by auto
  with step have "n < (m + 1) * 16 ^ length (c # cs)" by linarith
  with n d small show ?case by simp
qed

lemma length_utoa: "n \<le> 255 \<Longrightarrow> length (utoa n) \<le> 3"
  by (simp add: utoa.simps [of n] utoa.simps [of "n div 10"] utoa.simps [of "n div 10 div 10"])

lemma xtoi_utoa_dot:
  assumes "n \<le> 255"
  shows "\<exists>x. xtoi (utoa n @ CHR ''.'' # r) = (x, length (utoa n), True) \<and> x \<le> 0xFFFF"
proof -
  have "(16::nat) ^ length (utoa n) \<le> 16 ^ 3"
    using length_utoa [OF assms] by (intro power_increasing) simp_all
  then have short: "(0 + 1) * 16 ^ length (utoa n) \<le> (4096::nat)" by simp
  then have "(0 + 1) * 16 ^ length (utoa n) \<le> big" by (simp add: big_def)
  with utoa_digits [of n] obtain x where
    "xtoi_loop 0 0 (utoa n @ CHR ''.'' # r) = (x, 0 + length (utoa n), True)"
    and "x < (0 + 1) * 16 ^ length (utoa n)"
    using xtoi_loop_digits [of "utoa n" 0 0 r] by auto
  with short show ?thesis by (simp add: xtoi_def)
qed


text \<open>
  Every dotted quad of numbers up to 255 behind \<^verbatim>\<open>::ffff:\<close> parses, to the same
  sixteen bytes as the dotted quad alone, and is an IPv4-mapped literal.
\<close>

lemma dotted_hd: "dotted a0 a1 a2 a3 \<noteq> [] \<and> hd (dotted a0 a1 a2 a3) \<noteq> CHR '':''"
proof -
  from utoa_digits [of a0] obtain c cs where u: "utoa a0 = c # cs" and "is_digit c"
    by (cases "utoa a0") auto
  then have "c \<noteq> CHR '':''" by (auto simp: is_digit_def ord_def)
  with u show ?thesis by (simp add: dotted_def)
qed

lemma parseIPv6_body_ffff:
  assumes "q \<noteq> []" and "hd q \<noteq> CHR '':''"
  shows "parseIPv6_body ip (''ffff:'' @ q) i ellipsis = Next (ip[i := 255, i + 1 := 255]) q ellipsis"
  using assms by (simp add: parseIPv6_body_def xtoi_def ord_def big_def byte_def)

lemma parseIPv6_body_dotted:
  assumes "a0 \<le> 255" and "a1 \<le> 255" and "a2 \<le> 255" and "a3 \<le> 255"
    and "0 \<le> ellipsis" and "i + 4 \<le> 16"
  shows "parseIPv6_body ip (dotted a0 a1 a2 a3) i ellipsis
    = Break (ip[i := a0, i + 1 := a1, i + 2 := a2, i + 3 := a3]) [] (i + 4) ellipsis"
proof -
  obtain x where x: "xtoi (dotted a0 a1 a2 a3) = (x, length (utoa a0), True)" and "x \<le> 0xFFFF"
    using xtoi_utoa_dot [OF assms(1)] unfolding dotted_def by auto
  moreover have "length (utoa a0) < length (dotted a0 a1 a2 a3)"
    and "dotted a0 a1 a2 a3 ! length (utoa a0) = CHR ''.''"
    by (simp_all add: dotted_def nth_append)
  moreover have "parseIPv4 (dotted a0 a1 a2 a3) = Some (net_IPv4 a0 a1 a2 a3)"
    using assms by (simp add: parseIPv4_dotted)
  ultimately show ?thesis using assms(5,6)
    by (simp add: parseIPv6_body_def IPv4len_def IPv6len_def net_IPv4_def v4InV6Prefix_def)
qed

lemma parseIPv6_loop_Next:
  assumes "i < IPv6len" and "parseIPv6_body ip s i ellipsis = Next ip' s' ellipsis'"
  shows "parseIPv6_loop ip s i ellipsis = parseIPv6_loop ip' s' (i + 2) ellipsis'"
  using assms by (subst parseIPv6_loop.simps) simp

lemma parseIPv6_loop_Break:
  assumes "i < IPv6len" and "parseIPv6_body ip s i ellipsis = Break ip' s' i' ellipsis'"
  shows "parseIPv6_loop ip s i ellipsis = Some (ip', s', i', ellipsis')"
  using assms by (subst parseIPv6_loop.simps) simp

lemma ParseIP_mapped_dotted:
  assumes "a0 \<le> 255" and "a1 \<le> 255" and "a2 \<le> 255" and "a3 \<le> 255"
  shows "ParseIP (mapped_dotted a0 a1 a2 a3) = Some (net_IPv4 a0 a1 a2 a3)"
proof -
  let ?q = "dotted a0 a1 a2 a3"
  let ?ip1 = "(replicate 16 0)[0 := 255, 0 + 1 := 255]"
  let ?ip2 = "?ip1[0 + 2 := a0, 0 + 2 + 1 := a1, 0 + 2 + 2 := a2, 0 + 2 + 3 := a3]"
  have b1: "parseIPv6_body (replicate 16 0) (''ffff:'' @ ?q) 0 0 = Next ?ip1 ?q 0"
    using dotted_hd [of a0 a1 a2 a3] by (intro parseIPv6_body_ffff) simp_all
  have b2: "parseIPv6_body ?ip1 ?q (0 + 2) 0 = Break ?ip2 [] (0 + 2 + 4) 0"
    using assms by (intro parseIPv6_body_dotted) simp_all
  have "parseIPv6_loop (replicate 16 0) (''ffff:'' @ ?q) 0 0 = parseIPv6_loop ?ip1 ?q (0 + 2) 0"
    by (rule parseIPv6_loop_Next [OF _ b1]) (simp add: IPv6len_def)
  also have "\<dots> = Some (?ip2, [], 0 + 2 + 4, 0)"
    by (rule parseIPv6_loop_Break [OF _ b2]) (simp add: IPv6len_def)
  finally have loop: "parseIPv6_loop (replicate 16 0) (''ffff:'' @ ?q) 0 0
      = Some (?ip2, [], 0 + 2 + 4, 0)" .
  have "expand_ellipsis ?ip2 (0 + 2 + 4) 0 = net_IPv4 a0 a1 a2 a3"
    by (simp add: expand_ellipsis_def IPv6len_def upt_rec replicate_16 list_update_Cons_numeral
        net_IPv4_def v4InV6Prefix_def)
  with loop have "parseIPv6 (mapped_dotted a0 a1 a2 a3) = Some (net_IPv4 a0 a1 a2 a3)"
    using dotted_hd [of a0 a1 a2 a3]
    by (simp add: parseIPv6_def mapped_dotted_def IPv6len_def)
  then show ?thesis by (simp add: ParseIP_def mapped_dotted_def)
qed

lemma IPv4_mapped_literal_dotted:
  assumes "a0 \<le> 255" and "a1 \<le> 255" and "a2 \<le> 255" and "a3 \<le> 255"
  shows "IPv4_mapped_literal (mapped_dotted a0 a1 a2 a3)"
  using ParseIP_mapped_dotted [OF assms]
  by (simp add: IPv4_mapped_literal_def net_IPv4_def v4InV6Prefix_def)
    (simp add: mapped_dotted_def)

section \<open>The constructor\<close>

lemmas error_defs =
  UnsupportedProtocol_def InvalidIPFamily_def InvalidIPAddress_def FamilyMismatch_def

text \<open>
  Claim C3. A protocol that is not exactly \<^verbatim>\<open>tcp\<close>, \<^verbatim>\<open>udp\<close> or \<^verbatim>\<open>sctp\<close> (the
  comparison is on the bytes, so \<^verbatim>\<open>TCP\<close> is not \<^verbatim>\<open>tcp\<close>) makes the constructor fail with
  the error \<^verbatim>\<open>Unsupported protocol\<close>, whose message ends with the protocol given,
  whatever the description, the address, the family and the port are.
\<close>

theorem NewLocalPort_unsupported_protocol:
  assumes "protocol \<noteq> ''tcp''" and "protocol \<noteq> ''udp''" and "protocol \<noteq> ''sctp''"
  shows "NewLocalPort desc ip ipFamily port protocol = Inl (UnsupportedProtocol protocol)
    \<and> UnsupportedProtocol protocol = Errorf (''Unsupported protocol '' @ protocol)"
  using assms by (simp add: NewLocalPort_def UnsupportedProtocol_def)

theorem NewLocalPort_unsupported_protocol_witness:
  "''http'' \<noteq> ''tcp'' \<and> ''http'' \<noteq> ''udp'' \<and> ''http'' \<noteq> ''sctp''
   \<and> NewLocalPort ''Unsupported protocol'' ''2001:db8::2'' [] 80 ''http''
     = Inl (Errorf ''Unsupported protocol http'')
   \<and> ''TCP'' \<noteq> ''tcp'' \<and> ''TCP'' \<noteq> ''udp'' \<and> ''TCP'' \<noteq> ''sctp''
   \<and> NewLocalPort ''upper case'' ''1.2.3.4'' ''4'' 80 ''TCP''
     = Inl (Errorf ''Unsupported protocol TCP'')"
  using NewLocalPort_unsupported_protocol
      [of "''http''" "''Unsupported protocol''" "''2001:db8::2''" "[]" 80]
    NewLocalPort_unsupported_protocol [of "''TCP''" "''upper case''" "''1.2.3.4''" "''4''" 80]
  by simp

text \<open>
  Claim C4, as stated, asks for the error \<^verbatim>\<open>Invalid IP family\<close> for a family tag other
  than the empty one, \<^verbatim>\<open>4\<close> and \<^verbatim>\<open>6\<close> whatever the other arguments are, an invalid
  protocol included. The constructor checks the protocol first: with the family
  \<^verbatim>\<open>5\<close> and the protocol \<^verbatim>\<open>http\<close> the error is \<^verbatim>\<open>Unsupported protocol\<close>.
\<close>

theorem NewLocalPort_invalid_family_counterexample:
  "''5'' \<notin> {[], ''4'', ''6''}
   \<and> NewLocalPort ''Invalid ip family'' [] ''5'' 80 ''http''
       = Inl (Errorf ''Unsupported protocol http'')
   \<and> NewLocalPort ''Invalid ip family'' [] ''5'' 80 ''http'' \<noteq> Inl (InvalidIPFamily ''5'')"
  by (simp add: NewLocalPort_def error_defs)

text \<open>
  Claim C4, amended. When the protocol is one of \<^verbatim>\<open>tcp\<close>, \<^verbatim>\<open>udp\<close> and \<^verbatim>\<open>sctp\<close>, a
  family tag other than the empty one, \<^verbatim>\<open>4\<close> and \<^verbatim>\<open>6\<close> makes the constructor fail
  with the error \<^verbatim>\<open>Invalid IP family\<close>, whose message ends with the tag, whatever
  the description, the address and the port are.
\<close>

theorem NewLocalPort_invalid_family:
  assumes "protocol \<in> {''tcp'', ''udp'', ''sctp''}" and "ipFamily \<notin> {[], ''4'', ''6''}"
  shows "NewLocalPort desc ip ipFamily port protocol = Inl (InvalidIPFamily ipFamily)
    \<and> InvalidIPFamily ipFamily = Errorf (''Invalid IP family '' @ ipFamily)"
  using assms by (auto simp: NewLocalPort_def InvalidIPFamily_def)

theorem NewLocalPort_invalid_family_witness:
  "''tcp'' \<in> {''tcp'', ''udp'', ''sctp''} \<and> ''5'' \<notin> {[], ''4'', ''6''}
   \<and> NewLocalPort ''Invalid ip family'' [] ''5'' 80 ''tcp'' = Inl (Errorf ''Invalid IP family 5'')"
  using NewLocalPort_invalid_family [of "''tcp''" "''5''" "''Invalid ip family''" "[]" 80]
  by simp

text \<open>The addresses of the test file, parsed.\<close>

lemma ParseIP_2001_db8_2:
  "ParseIP ''2001:db8::2'' = Some [0x20, 0x01, 0x0d, 0xb8, 0, 0, 0, 0, 0, 0, 0, 0, 0, 0, 0, 2]"
  by (simp add: ParseIP_eval)

lemma ParseIP_1_2_3_4:
  "ParseIP ''1.2.3.4'' = Some [0, 0, 0, 0, 0, 0, 0, 0, 0, 0, 0xff, 0xff, 1, 2, 3, 4]"
  by (simp add: ParseIP_eval)

lemma ParseIP_300: "ParseIP ''300'' = None"
  by (simp add: ParseIP_eval)

lemmas To4_eval = To4_def IPv4len_def IPv6len_def isZeros_def

text \<open>
  Claim C1. When the address is not empty and parses, and either the parsed address
  is not an IPv4 address for \<^const>\<open>To4\<close> while the family is \<^verbatim>\<open>4\<close>, or it is one while
  the family is \<^verbatim>\<open>6\<close>, the constructor fails with the error
  \<^verbatim>\<open>ip address and family mismatch\<close> whenever the protocol is one of the three, and
  it returns no descriptor whatever the protocol is.
\<close>

theorem NewLocalPort_family_mismatch:
  assumes "ip \<noteq> []" and "ParseIP ip = Some parsedIP"
    and "To4 parsedIP = None \<and> ipFamily = ''4'' \<or> To4 parsedIP \<noteq> None \<and> ipFamily = ''6''"
  shows "(protocol \<in> {''tcp'', ''udp'', ''sctp''} \<longrightarrow>
            NewLocalPort desc ip ipFamily port protocol = Inl (FamilyMismatch ip ipFamily))
    \<and> (\<forall>lp. NewLocalPort desc ip ipFamily port protocol \<noteq> Inr lp)
    \<and> FamilyMismatch ip ipFamily
        = Errorf (''ip address and family mismatch '' @ ip @ '', '' @ ipFamily)"
  using assms by (auto simp: NewLocalPort_def IPv4_def IPv6_def FamilyMismatch_def)

theorem NewLocalPort_family_mismatch_witness:
  "ParseIP ''2001:db8::2'' = Some [0x20, 0x01, 0x0d, 0xb8, 0, 0, 0, 0, 0, 0, 0, 0, 0, 0, 0, 2]
   \<and> To4 [0x20, 0x01, 0x0d, 0xb8, 0, 0, 0, 0, 0, 0, 0, 0, 0, 0, 0, 2] = None
   \<and> NewLocalPort ''IP family mismatch'' ''2001:db8::2'' ''4'' 80 ''sctp''
     = Inl (Errorf ''ip address and family mismatch 2001:db8::2, 4'')
   \<and> ParseIP ''1.2.3.4'' = Some [0, 0, 0, 0, 0, 0, 0, 0, 0, 0, 0xff, 0xff, 1, 2, 3, 4]
   \<and> To4 [0, 0, 0, 0, 0, 0, 0, 0, 0, 0, 0xff, 0xff, 1, 2, 3, 4] = Some [1, 2, 3, 4]
   \<and> NewLocalPort ''IP family mismatch'' ''1.2.3.4'' ''6'' 80 ''sctp''
     = Inl (Errorf ''ip address and family mismatch 1.2.3.4, 6'')"
  using NewLocalPort_family_mismatch [OF _ ParseIP_2001_db8_2,
      of "''4''" "''sctp''" "''IP family mismatch''" 80]
    NewLocalPort_family_mismatch [OF _ ParseIP_1_2_3_4,
      of "''6''" "''sctp''" "''IP family mismatch''" 80]
  by (simp add: To4_eval ParseIP_2001_db8_2 ParseIP_1_2_3_4)

text \<open>
  Claim C5. The constructor fails with the error \<^verbatim>\<open>invalid ip address\<close> exactly when
  the protocol and the family tag are valid and the address is not empty and does not
  parse; the message then ends with the address given.
\<close>

theorem NewLocalPort_invalid_address:
  "((\<exists>x. NewLocalPort desc ip ipFamily port protocol = Inl (InvalidIPAddress x)) \<longleftrightarrow>
      protocol \<in> {''tcp'', ''udp'', ''sctp''} \<and> ipFamily \<in> {[], ''4'', ''6''}
      \<and> ip \<noteq> [] \<and> ParseIP ip = None)
   \<and> (protocol \<in> {''tcp'', ''udp'', ''sctp''} \<and> ipFamily \<in> {[], ''4'', ''6''}
      \<and> ip \<noteq> [] \<and> ParseIP ip = None \<longrightarrow>
        NewLocalPort desc ip ipFamily port protocol = Inl (InvalidIPAddress ip))
   \<and> InvalidIPAddress ip = Errorf (''invalid ip address '' @ ip)"
  by (auto simp: NewLocalPort_def error_defs split: option.splits)

theorem NewLocalPort_invalid_address_witness:
  "ParseIP ''300'' = None
   \<and> NewLocalPort ''Invalid IP'' ''300'' [] 80 ''tcp'' = Inl (Errorf ''invalid ip address 300'')"
  using NewLocalPort_invalid_address [of "''Invalid IP''" "''300''" "[]" 80 "''tcp''"]
  by (simp add: ParseIP_300)

text \<open>
  Claim C6. With a protocol among \<^verbatim>\<open>tcp\<close>, \<^verbatim>\<open>udp\<close> and \<^verbatim>\<open>sctp\<close>, a family tag that
  is empty, \<^verbatim>\<open>4\<close> or \<^verbatim>\<open>6\<close>, and an address that is empty or parses to an address of
  the family asked for (any address when the tag is empty), the constructor returns
  the descriptor with the five arguments as its fields. The constructor is a function
  of its five arguments alone: it takes no state of the operating system and returns
  none.
\<close>

theorem NewLocalPort_succeeds:
  assumes "protocol \<in> {''tcp'', ''udp'', ''sctp''}" and "ipFamily \<in> {[], ''4'', ''6''}"
    and "ip = [] \<or> (\<exists>parsedIP. ParseIP ip = Some parsedIP
          \<and> (ipFamily = [] \<or> ipFamily = ''4'' \<and> To4 parsedIP \<noteq> None
              \<or> ipFamily = ''6'' \<and> To4 parsedIP = None))"
  shows "NewLocalPort desc ip ipFamily port protocol
    = Inr \<lparr>Description = desc, IP = ip, IPFamily = ipFamily, Port = port, Protocol = protocol\<rparr>"
  using assms by (auto simp: NewLocalPort_def IPv4_def IPv6_def)

theorem NewLocalPort_succeeds_witness:
  "ParseIP ''2001:db8::2'' = Some [0x20, 0x01, 0x0d, 0xb8, 0, 0, 0, 0, 0, 0, 0, 0, 0, 0, 0, 2]
   \<and> To4 [0x20, 0x01, 0x0d, 0xb8, 0, 0, 0, 0, 0, 0, 0, 0, 0, 0, 0, 2] = None
   \<and> NewLocalPort ''IPv6 SCTP'' ''2001:db8::2'' ''6'' 80 ''sctp''
     = Inr \<lparr>Description = ''IPv6 SCTP'', IP = ''2001:db8::2'', IPFamily = ''6'', Port = 80,
            Protocol = ''sctp''\<rparr>
   \<and> ParseIP ''1.2.3.4'' = Some [0, 0, 0, 0, 0, 0, 0, 0, 0, 0, 0xff, 0xff, 1, 2, 3, 4]
   \<and> NewLocalPort ''IPv4 UDP'' ''1.2.3.4'' [] 9999 ''udp''
     = Inr \<lparr>Description = ''IPv4 UDP'', IP = ''1.2.3.4'', IPFamily = [], Port = 9999,
            Protocol = ''udp''\<rparr>
   \<and> NewLocalPort ''IPv4 TCP, all addresses'' [] ''4'' 1053 ''tcp''
     = Inr \<lparr>Description = ''IPv4 TCP, all addresses'', IP = [], IPFamily = ''4'', Port = 1053,
            Protocol = ''tcp''\<rparr>"
  using NewLocalPort_succeeds [of "''sctp''" "''6''" "''2001:db8::2''" "''IPv6 SCTP''" 80]
    NewLocalPort_succeeds [of "''udp''" "[]" "''1.2.3.4''" "''IPv4 UDP''" 9999]
    NewLocalPort_succeeds [of "''tcp''" "''4''" "[]" "''IPv4 TCP, all addresses''" 1053]
  by (simp add: ParseIP_2001_db8_2 ParseIP_1_2_3_4 To4_eval)

text \<open>
  Claim C9. The port is not checked: with another port the constructor fails with
  the same error, or succeeds with the same descriptor but for the port, and the port
  of the descriptor is the integer given, be it zero, negative or above 65535.
\<close>

theorem NewLocalPort_port_independent:
  "(case NewLocalPort desc ip ipFamily port protocol of
      Inl err \<Rightarrow> NewLocalPort desc ip ipFamily port' protocol = Inl err
    | Inr lp \<Rightarrow> Port lp = port
        \<and> NewLocalPort desc ip ipFamily port' protocol = Inr (lp\<lparr>Port := port'\<rparr>))"
  by (simp add: NewLocalPort_def IPv4_def IPv6_def split: option.splits)

theorem NewLocalPort_port_independent_witness:
  "NewLocalPort ''d'' ''1.2.3.4'' ''4'' (-1) ''tcp''
     = Inr \<lparr>Description = ''d'', IP = ''1.2.3.4'', IPFamily = ''4'', Port = -1, Protocol = ''tcp''\<rparr>
   \<and> NewLocalPort ''d'' ''1.2.3.4'' ''4'' 65536 ''tcp''
     = Inr \<lparr>Description = ''d'', IP = ''1.2.3.4'', IPFamily = ''4'', Port = 65536, Protocol = ''tcp''\<rparr>
   \<and> NewLocalPort ''d'' ''300'' ''4'' 0 ''tcp'' = Inl (Errorf ''invalid ip address 300'')
   \<and> NewLocalPort ''d'' ''300'' ''4'' 70000 ''tcp'' = Inl (Errorf ''invalid ip address 300'')"
proof -
  have ok: "NewLocalPort ''d'' ''1.2.3.4'' ''4'' (-1) ''tcp''
      = Inr \<lparr>Description = ''d'', IP = ''1.2.3.4'', IPFamily = ''4'', Port = -1, Protocol = ''tcp''\<rparr>"
    by (simp add: NewLocalPort_def ParseIP_1_2_3_4 To4_eval IPv4_def IPv6_def)
  have bad: "NewLocalPort ''d'' ''300'' ''4'' 0 ''tcp'' = Inl (Errorf ''invalid ip address 300'')"
    by (simp add: NewLocalPort_def ParseIP_300 InvalidIPAddress_def)
  from ok bad
    NewLocalPort_port_independent [where desc = "''d''" and ip = "''1.2.3.4''"
      and ipFamily = "''4''" and port = "-1" and protocol = "''tcp''" and port' = 65536]
    NewLocalPort_port_independent [where desc = "''d''" and ip = "''300''"
      and ipFamily = "''4''" and port = 0 and protocol = "''tcp''" and port' = 70000]
  show ?thesis by simp
qed

lemma To4_v4InV6Prefix:
  assumes "length ip = 16" and "take 12 ip = v4InV6Prefix"
  shows "To4 ip = Some (drop 12 ip)"
proof -
  from assms(2) have "take 10 (take 12 ip) = take 10 v4InV6Prefix"
    and "take 12 ip ! 10 = v4InV6Prefix ! 10" and "take 12 ip ! 11 = v4InV6Prefix ! 11"
    by simp_all
  then have "take 10 ip = [0, 0, 0, 0, 0, 0, 0, 0, 0, 0]" and "ip ! 10 = 0xff" and "ip ! 11 = 0xff"
    by (simp_all add: v4InV6Prefix_def)
  with assms(1) show ?thesis
    by (simp add: To4_def IPv4len_def IPv6len_def isZeros_def)
qed

lemma ParseIP_ffff_1_2_3_4:
  "ParseIP ''::ffff:1.2.3.4'' = Some [0, 0, 0, 0, 0, 0, 0, 0, 0, 0, 0xff, 0xff, 1, 2, 3, 4]"
  by (simp add: ParseIP_eval)

text \<open>
  Claim C10. The constructor takes an IPv4-mapped IPv6 literal for an IPv4 address:
  with a valid protocol it fails with the family mismatch for the family \<^verbatim>\<open>6\<close>, and
  returns the descriptor for the family \<^verbatim>\<open>4\<close> and for no family.
\<close>

theorem NewLocalPort_IPv4_mapped:
  assumes "IPv4_mapped_literal ip" and "protocol \<in> {''tcp'', ''udp'', ''sctp''}"
  shows "NewLocalPort desc ip ''6'' port protocol = Inl (FamilyMismatch ip ''6'')
    \<and> NewLocalPort desc ip ''4'' port protocol
      = Inr \<lparr>Description = desc, IP = ip, IPFamily = ''4'', Port = port, Protocol = protocol\<rparr>
    \<and> NewLocalPort desc ip [] port protocol
      = Inr \<lparr>Description = desc, IP = ip, IPFamily = [], Port = port, Protocol = protocol\<rparr>"
proof -
  from assms(1) have ne: "ip \<noteq> []"
    by (auto simp: IPv4_mapped_literal_def)
  from assms(1) obtain parsedIP where p: "ParseIP ip = Some parsedIP"
    and "take 12 parsedIP = v4InV6Prefix"
    by (auto simp: IPv4_mapped_literal_def split: option.splits)
  then have "To4 parsedIP = Some (drop 12 parsedIP)"
    by (simp add: To4_v4InV6Prefix ParseIP_length)
  with p ne assms(2) show ?thesis
    by (auto simp: NewLocalPort_def IPv4_def IPv6_def)
qed

theorem NewLocalPort_IPv4_mapped_witness:
  "IPv4_mapped_literal ''::ffff:1.2.3.4''
   \<and> NewLocalPort ''mapped'' ''::ffff:1.2.3.4'' ''6'' 80 ''tcp''
     = Inl (Errorf ''ip address and family mismatch ::ffff:1.2.3.4, 6'')
   \<and> NewLocalPort ''mapped'' ''::ffff:1.2.3.4'' ''4'' 80 ''tcp''
     = Inr \<lparr>Description = ''mapped'', IP = ''::ffff:1.2.3.4'', IPFamily = ''4'', Port = 80,
            Protocol = ''tcp''\<rparr>
   \<and> NewLocalPort ''mapped'' ''::ffff:1.2.3.4'' [] 80 ''tcp''
     = Inr \<lparr>Description = ''mapped'', IP = ''::ffff:1.2.3.4'', IPFamily = [], Port = 80,
            Protocol = ''tcp''\<rparr>"
  using NewLocalPort_IPv4_mapped [of "''::ffff:1.2.3.4''" "''tcp''" "''mapped''" 80]
  by (simp add: IPv4_mapped_literal_def ParseIP_ffff_1_2_3_4 v4InV6Prefix_def FamilyMismatch_def)

section \<open>Rendering\<close>

lemma quote_step_plain:
  assumes "0x20 \<le> ord c" and "ord c \<le> 0x7E" and "ord c \<noteq> 0x22" and "ord c \<noteq> 0x5C"
  shows "quote_step tab (c # cs) = ([c], 1)"
proof -
  have c: "char_of (ord c) = c" by (simp add: ord_def)
  from assms have "appendEscapedRune tab (ord c) = [c]"
    by (simp add: appendEscapedRune_def IsPrint_def EncodeRune_def c) (simp add: ord_def)
  with assms show ?thesis
    by (simp add: quote_step_def RuneSelf_def RuneError_def)
qed

lemma appendQuoted_loop_plain: "plain s \<Longrightarrow> appendQuoted_loop tab s = s"
proof (induction s)
  case Nil
  show ?case by (simp add: appendQuoted_loop.simps)
next
  case (Cons c cs)
  then have "quote_step tab (c # cs) = ([c], 1)" and "plain cs"
    by (simp_all add: plain_def quote_step_plain)
  with Cons.IH show ?case
    by (simp add: appendQuoted_loop.simps [of tab "c # cs"])
qed

lemma Quote_plain: "plain s \<Longrightarrow> Quote tab s = [CHR 0x22] @ s @ [CHR 0x22]"
  by (simp add: Quote_def appendQuoted_loop_plain)

lemmas Itoa_eval = Itoa_def utoa.simps ord_def char_of_eq_iff

text \<open>
  Claim C7. The rendering of a descriptor is the description quoted as \<^verbatim>\<open>%q\<close> does
  (between double quotes; as it is when it is plain), a space, and in parentheses the
  address joined with the port, a slash, the protocol and the family tag. The address
  is in brackets exactly when it has a colon, which every address has that parses and
  is not an IPv4 address; an empty address leaves the colon and the port; and with no
  family tag the protocol stands alone. The rendering is a function of the descriptor
  (and of the printable-rune tables). The four examples of the specification are the
  witness.
\<close>

theorem String_render:
  "String tab lp
     = Quote tab (Description lp) @ '' ('' @ JoinHostPort (IP lp) (Itoa (Port lp)) @ ''/''
         @ Protocol lp @ IPFamily lp @ '')''
   \<and> JoinHostPort (IP lp) (Itoa (Port lp))
     = (if CHR '':'' \<in> set (IP lp) then ''['' @ IP lp @ '']'' else IP lp) @ '':''
         @ Itoa (Port lp)
   \<and> (\<forall>parsedIP. ParseIP (IP lp) = Some parsedIP \<and> To4 parsedIP = None \<longrightarrow>
        JoinHostPort (IP lp) (Itoa (Port lp)) = ''['' @ IP lp @ '']:'' @ Itoa (Port lp))
   \<and> (IP lp = [] \<longrightarrow> JoinHostPort (IP lp) (Itoa (Port lp)) = '':'' @ Itoa (Port lp))
   \<and> (IPFamily lp = [] \<longrightarrow>
        String tab lp
          = Quote tab (Description lp) @ '' ('' @ JoinHostPort (IP lp) (Itoa (Port lp)) @ ''/''
              @ Protocol lp @ '')'')
   \<and> (\<exists>q. Quote tab (Description lp) = [CHR 0x22] @ q @ [CHR 0x22])
   \<and> (plain (Description lp) \<longrightarrow>
        Quote tab (Description lp) = [CHR 0x22] @ Description lp @ [CHR 0x22])"
proof -
  have "\<And>parsedIP. ParseIP (IP lp) = Some parsedIP \<Longrightarrow> To4 parsedIP = None \<Longrightarrow>
      CHR '':'' \<in> set (IP lp)"
    by (rule ParseIP_To4_None)
  moreover have "\<exists>q. Quote tab (Description lp) = [CHR 0x22] @ q @ [CHR 0x22]"
    by (simp add: Quote_def)
  ultimately show ?thesis
    by (auto simp: String_def Let_def JoinHostPort_def Quote_plain)
qed

theorem String_render_witness:
  "\<forall>tab.
     plain ''IPv4 UDP'' \<and> plain ''IPv6 TCP'' \<and> plain ''IPv4 TCP, all addresses''
   \<and> plain ''No ip family TCP, all addresses''
   \<and> String tab \<lparr>Description = ''IPv4 UDP'', IP = ''1.2.3.4'', IPFamily = [], Port = 9999,
       Protocol = ''udp''\<rparr>
     = [CHR 0x22] @ ''IPv4 UDP'' @ [CHR 0x22] @ '' (1.2.3.4:9999/udp)''
   \<and> String tab \<lparr>Description = ''IPv6 TCP'', IP = ''2001:db8::1'', IPFamily = [], Port = 80,
       Protocol = ''tcp''\<rparr>
     = [CHR 0x22] @ ''IPv6 TCP'' @ [CHR 0x22] @ '' ([2001:db8::1]:80/tcp)''
   \<and> String tab \<lparr>Description = ''IPv4 TCP, all addresses'', IP = [], IPFamily = ''4'',
       Port = 1053, Protocol = ''tcp''\<rparr>
     = [CHR 0x22] @ ''IPv4 TCP, all addresses'' @ [CHR 0x22] @ '' (:1053/tcp4)''
   \<and> String tab \<lparr>Description = ''No ip family TCP, all addresses'', IP = [], IPFamily = [],
       Port = 80, Protocol = ''tcp''\<rparr>
     = [CHR 0x22] @ ''No ip family TCP, all addresses'' @ [CHR 0x22] @ '' (:80/tcp)''"
  (is "\<forall>tab. ?examples tab")
proof
  fix tab
  show "?examples tab"
    using String_render [of tab "\<lparr>Description = ''IPv4 UDP'', IP = ''1.2.3.4'', IPFamily = [],
        Port = 9999, Protocol = ''udp''\<rparr>"]
      String_render [of tab "\<lparr>Description = ''IPv6 TCP'', IP = ''2001:db8::1'', IPFamily = [],
        Port = 80, Protocol = ''tcp''\<rparr>"]
      String_render [of tab "\<lparr>Description = ''IPv4 TCP, all addresses'', IP = [],
        IPFamily = ''4'', Port = 1053, Protocol = ''tcp''\<rparr>"]
      String_render [of tab "\<lparr>Description = ''No ip family TCP, all addresses'', IP = [],
        IPFamily = [], Port = 80, Protocol = ''tcp''\<rparr>"]
    by (simp add: plain_def Itoa_eval)
qed

section \<open>The opener\<close>

lemma failing_net_tcp: "openLocalPort (\<lambda>r. False) failing_net
     \<lparr>Description = ''IPv4 SCTP'', IP = ''999.10.11.12'', IPFamily = ''6'', Port = -7777,
      Protocol = ''tcp''\<rparr> 0 = (Inl (NetError ''listen: address already in use''), 1)"
  by (simp add: openLocalPort_def failing_net_def)

lemmas Quote_eval =
  Quote_def appendQuoted_loop.simps quote_step_def DecodeRuneInString_def first_def ord_def
  RuneSelf_def RuneError_def locb_def hicb_def appendEscapedRune_def IsPrint_def MaxRune_def
  hex_digits_def lowerhex_def upt_rec EncodeRune_def byte_def char_of_eq_iff

lemma Quote_http: "Quote tab ''http'' = [CHR 0x22] @ ''http'' @ [CHR 0x22]"
  by (simp add: Quote_eval)

text \<open>
  Claim C2. For a descriptor with the protocol \<^verbatim>\<open>sctp\<close>, whatever its other fields
  are, the opener returns no error and the \<^verbatim>\<open>nil\<close> handle, and leaves the state of the
  operating system as it was, on every operating system: it makes none of the calls.
  There is no resource and so nothing to release.
\<close>

theorem openLocalPort_sctp:
  assumes "Protocol lp = ''sctp''"
  shows "openLocalPort tab os lp w = (Inr None, w) \<and> OpenLocalPort tab os lp w = (Inr None, w)"
  using assms by (simp add: openLocalPort_def OpenLocalPort_def)

theorem openLocalPort_sctp_witness:
  "openLocalPort (\<lambda>r. False) failing_net
     \<lparr>Description = ''IPv4 SCTP'', IP = ''999.10.11.12'', IPFamily = ''6'', Port = -7777,
      Protocol = ''sctp''\<rparr> 0
   = (Inr None, 0)"
  using openLocalPort_sctp [of "\<lparr>Description = ''IPv4 SCTP'', IP = ''999.10.11.12'',
      IPFamily = ''6'', Port = -7777, Protocol = ''sctp''\<rparr>" "\<lambda>r. False" failing_net 0]
  by simp

text \<open>
  A descriptor that the constructor returned has one of the three protocols and a
  family tag that is empty, \<^verbatim>\<open>4\<close> or \<^verbatim>\<open>6\<close>: the last branch of the opener is
  reached only with a descriptor made in another way.
\<close>

lemma NewLocalPort_valid:
  assumes "NewLocalPort desc ip ipFamily port protocol = Inr lp"
  shows "Protocol lp \<in> {''tcp'', ''udp'', ''sctp''} \<and> IPFamily lp \<in> {[], ''4'', ''6''}"
  using assms by (auto simp: NewLocalPort_def split: if_splits option.splits)

text \<open>
  Claim C8. For a descriptor whose protocol is none of \<^verbatim>\<open>tcp\<close>, \<^verbatim>\<open>udp\<close> and
  \<^verbatim>\<open>sctp\<close>, as only a descriptor made without the constructor has, the opener
  returns the error \<^verbatim>\<open>unknown protocol\<close> with the quoted protocol in its message and
  no handle, and makes no call of the operating system.
\<close>

theorem openLocalPort_unknown_protocol:
  assumes "Protocol lp \<notin> {''tcp'', ''udp'', ''sctp''}"
  shows "openLocalPort tab os lp w = (Inl (UnknownProtocol tab (Protocol lp)), w)
    \<and> UnknownProtocol tab (Protocol lp) = Errorf (''unknown protocol '' @ Quote tab (Protocol lp))"
  using assms by (simp add: openLocalPort_def UnknownProtocol_def)

theorem openLocalPort_unknown_protocol_witness:
  "openLocalPort (\<lambda>r. False) failing_net
     \<lparr>Description = ''d'', IP = [], IPFamily = [], Port = 80, Protocol = ''http''\<rparr> 0
   = (Inl (Errorf (''unknown protocol '' @ [CHR 0x22] @ ''http'' @ [CHR 0x22])), 0)"
  using openLocalPort_unknown_protocol [of "\<lparr>Description = ''d'', IP = [], IPFamily = [],
      Port = 80, Protocol = ''http''\<rparr>" "\<lambda>r. False" failing_net 0]
  by (simp add: Quote_http)

end
